theory Spec2Isabelle
  imports Complex_Main "HOL-Library.AList"
begin

section \<open>The camera manager of frontend/js/camera.js\<close>

text \<open>
  The class \<open>CameraManager\<close> owns the capture device, the WebSocket to the backend, the
  self-rescheduling frame loop and the history of detected emotions. JavaScript runs it on
  one thread, so every method is a function from the manager to the manager. What a method
  asks of the browser is appended to a trace of effects, in call order.

  Conventions of the embedding:
  \<^item> a label is a \<open>string\<close>: the property key that JavaScript derives from the value of
    \<open>data.emotion\<close>;
  \<^item> a confidence is a \<open>real\<close>; the manager only stores it;
  \<^item> a timestamp is an \<open>int\<close>, the milliseconds since the epoch that
    \<open>new Date().toISOString()\<close> writes and \<open>new Date(e.timestamp)\<close> reads back;
  \<^item> \<open>toDateString\<close> of the local calendar is a parameter \<open>cal\<close> from timestamps to days;
  \<^item> the page is taken to hold the elements \<open>video\<close> and \<open>overlay\<close>; the elements that the
    code tests before use (\<open>today-emotions\<close>, the three buttons) are optional fields.
\<close>

subsection \<open>Data\<close>

record emotionEntry =
  emotion :: string
  confidence :: real
  timestamp :: int

text \<open>
  A row of the object \<open>emotionCounts\<close>. \<open>Count n\<close> is the number \<open>n\<close>. \<open>Garbled n\<close> is
  not a number: it is the text of a property inherited from \<open>Object.prototype\<close> followed by
  \<open>n\<close> characters \<open>1\<close>, which is what \<open>(emotionCounts[k] || 0) + 1\<close> builds when the
  key \<open>k\<close> names such a property.
\<close>

datatype tally = Count nat | Garbled nat

type_synonym counts = "(string \<times> tally) list"

datatype readyState = CONNECTING | OPEN | CLOSING | CLOSED

datatype effect =
    NewWebSocket
  | GetUserMedia
  | TrackStop nat
  | WsSend
  | WsClose
  | ConsoleLog string
  | ConsoleError string
  | ShowCameraError string
  | PostAnalyzeEmotion
  | PostMoodEntry string
  | LoadDashboard
  | ShowNotification string

record cameraManager =
  stream :: "nat option"
  ws :: "readyState option"
  isStreaming :: bool
  detectedEmotions :: "emotionEntry list"
  timers :: nat
  startBtn :: "bool option"
  stopBtn :: "bool option"
  captureBtn :: "bool option"
  todayContainer :: "counts option"
  effects :: "effect list"

text \<open>
  \<open>stream\<close> is the handle of the MediaStream held, \<open>ws\<close> the readyState of the socket held,
  \<open>timers\<close> the number of pending \<open>setTimeout(sendFrame, 100)\<close> callbacks. A button is
  \<open>None\<close> when the page lacks it and \<open>Some d\<close> with \<open>d\<close> its \<open>disabled\<close> flag.
  \<open>todayContainer\<close> is \<open>None\<close> when the page lacks the element and otherwise the rows it
  shows (the order in which \<open>Object.entries\<close> lists integer-like keys is not modelled).
\<close>

definition emit :: "effect \<Rightarrow> cameraManager \<Rightarrow> cameraManager" where
  "emit e s = s\<lparr>effects := effects s @ [e]\<rparr>"

subsection \<open>storeEmotion and updateTodayEmotions\<close>

text \<open>
  The properties every object inherits from \<open>Object.prototype\<close> in a browser: eleven
  methods, all writable, and the accessor \<open>__proto__\<close>, whose setter ignores a value that
  is neither an object nor null.
\<close>

definition objectPrototypeMethods :: "string list" where
  "objectPrototypeMethods =
     [''constructor'', ''hasOwnProperty'', ''isPrototypeOf'', ''propertyIsEnumerable'',
      ''toLocaleString'', ''toString'', ''valueOf'', ''__defineGetter__'',
      ''__defineSetter__'', ''__lookupGetter__'', ''__lookupSetter__'']"

definition inheritedKeys :: "string list" where
  "inheritedKeys = ''__proto__'' # objectPrototypeMethods"

text \<open>\<open>emotionCounts[k] = (emotionCounts[k] || 0) + 1\<close> on an object literal.\<close>

definition tallyLabel :: "counts \<Rightarrow> string \<Rightarrow> counts" where
  "tallyLabel tbl k =
     (case map_of tbl k of
        Some (Count n) \<Rightarrow> AList.update k (Count (n + 1)) tbl
      | Some (Garbled n) \<Rightarrow> AList.update k (Garbled (n + 1)) tbl
      | None \<Rightarrow>
          if k = ''__proto__'' then tbl
          else if k \<in> set objectPrototypeMethods then AList.update k (Garbled 1) tbl
          else AList.update k (Count 1) tbl)"

definition todayEmotions :: "(int \<Rightarrow> 'd) \<Rightarrow> int \<Rightarrow> emotionEntry list \<Rightarrow> emotionEntry list" where
  "todayEmotions cal now des = filter (\<lambda>e. cal (timestamp e) = cal now) des"

definition emotionCounts :: "(int \<Rightarrow> 'd) \<Rightarrow> int \<Rightarrow> emotionEntry list \<Rightarrow> counts" where
  "emotionCounts cal now des = foldl tallyLabel [] (map emotion (todayEmotions cal now des))"

definition updateTodayEmotions :: "(int \<Rightarrow> 'd) \<Rightarrow> int \<Rightarrow> cameraManager \<Rightarrow> cameraManager" where
  "updateTodayEmotions cal now s =
     (case todayContainer s of
        None \<Rightarrow> s
      | Some rows \<Rightarrow> s\<lparr>todayContainer := Some (emotionCounts cal now (detectedEmotions s))\<rparr>)"

text \<open>
  \<open>storeEmotion\<close> reads the clock twice: \<open>t1\<close> stamps the entry, \<open>t2\<close> is the \<open>new Date()\<close>
  of \<open>updateTodayEmotions\<close>. \<open>shift()\<close> drops the first element.
\<close>

definition storeEmotion ::
  "(int \<Rightarrow> 'd) \<Rightarrow> string \<Rightarrow> real \<Rightarrow> int \<Rightarrow> int \<Rightarrow> cameraManager \<Rightarrow> cameraManager" where
  "storeEmotion cal em conf t1 t2 s =
     (let pushed = detectedEmotions s @ [\<lparr>emotion = em, confidence = conf, timestamp = t1\<rparr>];
          kept = (if length pushed > 100 then tl pushed else pushed)
      in updateTodayEmotions cal t2 (s\<lparr>detectedEmotions := kept\<rparr>))"

text \<open>One inbound event: label, confidence and the two clock readings of its call.\<close>

type_synonym inbound = "string \<times> real \<times> int \<times> int"

definition entryOf :: "inbound \<Rightarrow> emotionEntry" where
  "entryOf ev = (case ev of (em, conf, t1, t2) \<Rightarrow> \<lparr>emotion = em, confidence = conf, timestamp = t1\<rparr>)"

definition record1 :: "(int \<Rightarrow> 'd) \<Rightarrow> cameraManager \<Rightarrow> inbound \<Rightarrow> cameraManager" where
  "record1 cal s ev = (case ev of (em, conf, t1, t2) \<Rightarrow> storeEmotion cal em conf t1 t2 s)"

definition recordAll :: "(int \<Rightarrow> 'd) \<Rightarrow> inbound list \<Rightarrow> cameraManager \<Rightarrow> cameraManager" where
  "recordAll cal evs s = foldl (record1 cal) s evs"

text \<open>
  Reading a table. \<open>countOf\<close> is the number a row holds (a garbled row holds none),
  \<open>eventsOf\<close> the number of events that went into the row. \<open>countSum\<close> adds up the
  numbers of a table, \<open>eventSum\<close> the events behind all its rows, \<open>countFor\<close> is the
  number shown for one label. \<open>lastN\<close> is the end of a list, \<open>utcDay\<close> the calendar of a
  browser whose local time is UTC.
\<close>

fun countOf :: "tally \<Rightarrow> nat" where
  "countOf (Count n) = n"
| "countOf (Garbled n) = 0"

fun eventsOf :: "tally \<Rightarrow> nat" where
  "eventsOf (Count n) = n"
| "eventsOf (Garbled n) = n"

definition tallySum :: "(tally \<Rightarrow> nat) \<Rightarrow> counts \<Rightarrow> nat" where
  "tallySum w tbl = sum_list (map (\<lambda>row. w (snd row)) tbl)"

definition countSum :: "counts \<Rightarrow> nat" where
  "countSum tbl = tallySum countOf tbl"

definition eventSum :: "counts \<Rightarrow> nat" where
  "eventSum tbl = tallySum eventsOf tbl"

definition countFor :: "counts \<Rightarrow> string \<Rightarrow> nat" where
  "countFor tbl k = (case map_of tbl k of Some (Count n) \<Rightarrow> n | Some (Garbled n) \<Rightarrow> 0 | None \<Rightarrow> 0)"

definition utcDay :: "int \<Rightarrow> int" where
  "utcDay t = t div 86400000"

definition lastN :: "nat \<Rightarrow> 'a list \<Rightarrow> 'a list" where
  "lastN n xs = drop (length xs - n) xs"

subsection \<open>The constructor\<close>

text \<open>
  \<open>constructor\<close> and \<open>init\<close>: no stream, a socket just created (CONNECTING), not streaming,
  an empty history. The page's optional elements are the arguments.
\<close>

definition setupWebSocket :: "cameraManager \<Rightarrow> cameraManager" where
  "setupWebSocket s = emit NewWebSocket (s\<lparr>ws := Some CONNECTING\<rparr>)"

definition newCameraManager ::
  "bool option \<Rightarrow> bool option \<Rightarrow> bool option \<Rightarrow> counts option \<Rightarrow> cameraManager" where
  "newCameraManager b1 b2 b3 tc =
     setupWebSocket
       \<lparr>stream = None, ws = None, isStreaming = False, detectedEmotions = [], timers = 0,
        startBtn = b1, stopBtn = b2, captureBtn = b3, todayContainer = tc, effects = []\<rparr>"

subsection \<open>The capture lifecycle\<close>

definition updateCameraUI :: "string \<Rightarrow> cameraManager \<Rightarrow> cameraManager" where
  "updateCameraUI state s =
     (if state = ''started''
      then s\<lparr>startBtn := map_option (\<lambda>d. True) (startBtn s),
             stopBtn := map_option (\<lambda>d. False) (stopBtn s),
             captureBtn := map_option (\<lambda>d. False) (captureBtn s)\<rparr>
      else s\<lparr>startBtn := map_option (\<lambda>d. False) (startBtn s),
             stopBtn := map_option (\<lambda>d. True) (stopBtn s),
             captureBtn := map_option (\<lambda>d. True) (captureBtn s)\<rparr>)"

definition showCameraError :: "string \<Rightarrow> cameraManager \<Rightarrow> cameraManager" where
  "showCameraError message s = emit (ShowCameraError message) s"

text \<open>
  The closure \<open>sendFrame\<close> of \<open>startEmotionDetection\<close>: the guard returns before the
  \<open>setTimeout\<close>; past the guard one frame is sent and one callback is scheduled.
\<close>

definition sendFrame :: "cameraManager \<Rightarrow> cameraManager" where
  "sendFrame s =
     (if \<not> isStreaming s \<or> ws s = None \<or> ws s \<noteq> Some OPEN then s
      else (emit WsSend s)\<lparr>timers := timers s + 1\<rparr>)"

definition startEmotionDetection :: "cameraManager \<Rightarrow> cameraManager" where
  "startEmotionDetection s = sendFrame s"

text \<open>A pending callback fires: the timer is consumed and \<open>sendFrame\<close> runs.\<close>

definition tick :: "cameraManager \<Rightarrow> cameraManager" where
  "tick s = (if timers s = 0 then s else sendFrame (s\<lparr>timers := timers s - 1\<rparr>))"

fun ticks :: "nat \<Rightarrow> cameraManager \<Rightarrow> cameraManager" where
  "ticks 0 s = s"
| "ticks (Suc n) s = ticks n (tick s)"

text \<open>
  \<open>startCamera\<close> with the outcome of \<open>getUserMedia\<close> as its argument; the method runs on
  from the \<open>await\<close> in one piece when the promise settles.
\<close>

datatype acquisition = Granted nat | Denied

definition startCamera :: "acquisition \<Rightarrow> cameraManager \<Rightarrow> cameraManager" where
  "startCamera outcome s =
     (case outcome of
        Granted h \<Rightarrow>
          updateCameraUI ''started''
            (startEmotionDetection ((emit GetUserMedia s)\<lparr>stream := Some h, isStreaming := True\<rparr>))
      | Denied \<Rightarrow>
          showCameraError ''Unable to access camera. Please check permissions.''
            (emit (ConsoleError ''Error accessing camera:'') (emit GetUserMedia s)))"

definition stopCamera :: "cameraManager \<Rightarrow> cameraManager" where
  "stopCamera s =
     (let s1 = (case stream s of
                  Some h \<Rightarrow> (emit (TrackStop h) s)\<lparr>stream := None, isStreaming := False\<rparr>
                | None \<Rightarrow> s);
          s2 = (if ws s1 \<noteq> None \<and> ws s1 = Some OPEN
                then (emit WsClose s1)\<lparr>ws := Some CLOSING\<rparr> else s1)
      in updateCameraUI ''stopped'' s2)"

subsection \<open>The socket's handlers\<close>

definition ws_onopen :: "cameraManager \<Rightarrow> cameraManager" where
  "ws_onopen s = emit (ConsoleLog ''WebSocket connected for emotion streaming'') s"

definition ws_onclose :: "cameraManager \<Rightarrow> cameraManager" where
  "ws_onclose s = emit (ConsoleLog ''WebSocket disconnected'') s"

definition ws_onerror :: "cameraManager \<Rightarrow> cameraManager" where
  "ws_onerror s = emit (ConsoleError ''WebSocket error:'') s"

text \<open>
  What the browser does to the socket: it sets the readyState and then calls the handler.
  An error event leaves the readyState to the close event that follows it.
\<close>

definition channelOpens :: "cameraManager \<Rightarrow> cameraManager" where
  "channelOpens s = ws_onopen (s\<lparr>ws := Some OPEN\<rparr>)"

definition channelCloses :: "cameraManager \<Rightarrow> cameraManager" where
  "channelCloses s = ws_onclose (s\<lparr>ws := Some CLOSED\<rparr>)"

definition channelErrors :: "cameraManager \<Rightarrow> cameraManager" where
  "channelErrors s = ws_onerror s"

subsection \<open>Saving a mood entry\<close>

text \<open>
  The outcome of a \<open>fetch\<close>: the promise rejects, or a response arrives with its \<open>ok\<close> flag.
  \<open>app\<close> is \<open>window.mindWellApp\<close>: \<open>None\<close> when absent, else its \<open>currentSection\<close>.
\<close>

datatype fetched = Rejected | Response bool

definition saveMoodEntry ::
  "fetched \<Rightarrow> string option \<Rightarrow> string \<Rightarrow> cameraManager \<Rightarrow> cameraManager" where
  "saveMoodEntry outcome app em s =
     (case outcome of
        Response ok \<Rightarrow>
          if ok then
            (if app \<noteq> None \<and> app = Some ''dashboard''
             then emit LoadDashboard (emit (PostMoodEntry em) s)
             else emit (PostMoodEntry em) s)
          else emit (PostMoodEntry em) s
      | Rejected \<Rightarrow> emit (ConsoleError ''Error saving mood entry:'') (emit (PostMoodEntry em) s))"

definition showNotification :: "string option \<Rightarrow> string \<Rightarrow> cameraManager \<Rightarrow> cameraManager" where
  "showNotification app message s = (if app \<noteq> None then emit (ShowNotification message) s else s)"

text \<open>
  \<open>captureMood\<close>, with the label and confidence classified when the analysis request answers
  (\<open>None\<close> when it rejects: the callback of \<open>toBlob\<close> then ends there) and the outcome of
  the save. \<open>percent\<close> is the text that the template literal prints for
  \<open>Math.round(data.confidence * 100)\<close>.
\<close>

definition captureMood ::
  "(real \<Rightarrow> string) \<Rightarrow> (string \<times> real) option \<Rightarrow> fetched \<Rightarrow> string option \<Rightarrow>
   cameraManager \<Rightarrow> cameraManager" where
  "captureMood percent analysed outcome app s =
     (if \<not> isStreaming s then showCameraError ''Please start the camera first'' s
      else case analysed of
             None \<Rightarrow> emit PostAnalyzeEmotion s
           | Some (em, conf) \<Rightarrow>
               showNotification app
                 (''Mood captured: '' @ em @ '' ('' @ percent conf @ ''% confidence)'')
                 (saveMoodEntry outcome app em (emit PostAnalyzeEmotion s)))"

subsection \<open>Auxiliary notions\<close>

text \<open>
  The row that a table built from the labels \<open>ls\<close> holds for the key \<open>k\<close>: none when the
  label did not occur or is \<open>__proto__\<close>, a garbled text when the key names an inherited
  method, and the number of occurrences otherwise.
\<close>

definition expectedRow :: "string list \<Rightarrow> string \<Rightarrow> tally option" where
  "expectedRow ls k =
     (if k \<in> set ls \<and> k \<noteq> ''__proto__''
      then Some (if k \<in> set objectPrototypeMethods then Garbled (count_list ls k)
                 else Count (count_list ls k))
      else None)"


text \<open>
  The decimal text of a rounded percentage, as JavaScript prints an integer of fewer than 22
  digits; \<open>Math.round\<close> rounds a half upwards, as \<open>round\<close> does.
\<close>

fun decimal :: "nat \<Rightarrow> string" where
  "decimal n =
     (if n < 10 then [''0123456789'' ! n]
      else decimal (n div 10) @ [''0123456789'' ! (n mod 10)])"

declare decimal.simps [simp del]

definition percentText :: "real \<Rightarrow> string" where
  "percentText c =
     (if round (c * 100) < 0 then CHR ''-'' # decimal (nat (- round (c * 100)))
      else decimal (nat (round (c * 100))))"

text \<open>
  Managers used as examples: \<open>page\<close> is the manager just constructed on a page that
  has the three buttons, all enabled, and an empty \<open>today-emotions\<close> element;
  \<open>streaming\<close> is that manager after its socket has connected and \<open>startCamera\<close> was
  granted the stream with handle 1; \<open>fullToday\<close> holds 100 entries of the day of
  timestamp 1000, and \<open>fullDay\<close> holds 99 of them behind one entry of the day before.
\<close>

definition page :: cameraManager where
  "page = newCameraManager (Some False) (Some False) (Some False) (Some [])"

definition streaming :: cameraManager where
  "streaming = startCamera (Granted 1) (channelOpens page)"



section \<open>Properties\<close>

subsection \<open>The history buffer\<close>

text \<open>
  \<open>push\<close> followed by a \<open>shift\<close> once the length passes 100 keeps the last 100 entries.
\<close>

lemma lastN_length: "length (lastN n xs) \<le> n"
  by (simp add: lastN_def)

lemma lastN_lastN_append: "lastN n (lastN n xs @ ys) = lastN n (xs @ ys)"
proof (cases "length xs \<le> n")
  case True
  then show ?thesis by (simp add: lastN_def)
next
  case False
  then have "length xs + length ys - (length xs - n + n) + (length xs - n) =
             length xs + length ys - n" by arith
  then show ?thesis by (simp add: lastN_def)
qed

lemma lastN_short: "length xs \<le> n \<Longrightarrow> lastN n xs = xs"
  by (simp add: lastN_def)

lemma push_shift_lastN:
  "length des \<le> 100 \<Longrightarrow>
   (if length (des @ [e]) > 100 then tl (des @ [e]) else des @ [e]) = lastN 100 (des @ [e])"
proof (cases "length des = 100")
  case True
  then have "des \<noteq> []" by auto
  then have "tl (des @ [e]) = drop 1 (des @ [e])" by (cases des) simp_all
  with True show ?thesis by (simp add: lastN_def)
next
  case False
  assume "length des \<le> 100"
  with False show ?thesis by (simp add: lastN_def)
qed

lemma detectedEmotions_updateTodayEmotions:
  "detectedEmotions (updateTodayEmotions cal now s) = detectedEmotions s"
  by (simp add: updateTodayEmotions_def split: option.splits)

lemma detectedEmotions_storeEmotion:
  "length (detectedEmotions s) \<le> 100 \<Longrightarrow>
   detectedEmotions (storeEmotion cal em conf t1 t2 s) =
     lastN 100 (detectedEmotions s @ [\<lparr>emotion = em, confidence = conf, timestamp = t1\<rparr>])"
proof -
  assume "length (detectedEmotions s) \<le> 100"
  from push_shift_lastN [OF this]
  show ?thesis
    unfolding storeEmotion_def Let_def detectedEmotions_updateTodayEmotions by simp
qed

lemma detectedEmotions_record1:
  "length (detectedEmotions s) \<le> 100 \<Longrightarrow>
   detectedEmotions (record1 cal s ev) = lastN 100 (detectedEmotions s @ [entryOf ev])"
  by (cases ev) (simp add: record1_def entryOf_def detectedEmotions_storeEmotion)

lemma detectedEmotions_recordAll:
  "length (detectedEmotions s) \<le> 100 \<Longrightarrow>
   detectedEmotions (recordAll cal evs s) = lastN 100 (detectedEmotions s @ map entryOf evs)"
proof (induction evs arbitrary: s)
  case Nil
  then show ?case by (simp add: recordAll_def lastN_short)
next
  case (Cons ev evs)
  have len: "length (detectedEmotions (record1 cal s ev)) \<le> 100"
    using Cons.prems by (simp add: detectedEmotions_record1 lastN_length)
  have "detectedEmotions (recordAll cal (ev # evs) s) =
        detectedEmotions (recordAll cal evs (record1 cal s ev))"
    by (simp add: recordAll_def)
  also have "\<dots> = lastN 100 (detectedEmotions (record1 cal s ev) @ map entryOf evs)"
    using Cons.IH [OF len] .
  also have "\<dots> = lastN 100 (detectedEmotions s @ map entryOf (ev # evs))"
    using Cons.prems by (simp add: detectedEmotions_record1 lastN_lastN_append)
  finally show ?case .
qed

lemma detectedEmotions_storeEmotion_room:
  "length (detectedEmotions s) < 100 \<Longrightarrow>
   detectedEmotions (storeEmotion cal em conf t1 t2 s) =
     detectedEmotions s @ [\<lparr>emotion = em, confidence = conf, timestamp = t1\<rparr>]"
  by (simp add: storeEmotion_def Let_def detectedEmotions_updateTodayEmotions)

lemma last_stored:
  "last (if length (des @ [e]) > 100 then tl (des @ [e]) else des @ [e]) = e"
  by (cases des) auto

lemma detectedEmotions_new [simp]: "detectedEmotions (newCameraManager b1 b2 b3 tc) = []"
  by (simp add: newCameraManager_def setupWebSocket_def emit_def)

lemma todayContainer_new [simp]: "todayContainer (newCameraManager b1 b2 b3 tc) = tc"
  by (simp add: newCameraManager_def setupWebSocket_def emit_def)

lemma todayContainer_storeEmotion:
  "todayContainer (storeEmotion cal em conf t1 t2 s) =
   map_option (\<lambda>rows. emotionCounts cal t2 (detectedEmotions (storeEmotion cal em conf t1 t2 s)))
     (todayContainer s)"
  by (simp add: storeEmotion_def updateTodayEmotions_def Let_def split: option.splits)

lemma todayContainer_recordAll:
  "map_option (\<lambda>rows. x) (todayContainer (recordAll cal evs s)) =
   map_option (\<lambda>rows. x) (todayContainer s)"
proof (induction evs rule: rev_induct)
  case Nil
  show ?case by (simp add: recordAll_def)
next
  case (snoc ev evs)
  obtain em conf t1 t2 where ev: "ev = (em, conf, t1, t2)" by (cases ev) auto
  have "recordAll cal (evs @ [ev]) s = storeEmotion cal em conf t1 t2 (recordAll cal evs s)"
    by (simp add: recordAll_def record1_def ev)
  then show ?case
    using snoc by (simp add: todayContainer_storeEmotion option.map_comp o_def)
qed

subsection \<open>The table of counts\<close>

text \<open>
  A table built by \<open>tallyLabel\<close> from the empty object is described row by row by
  \<open>expectedRow\<close>; its sums follow from how one update changes a sum.
\<close>

lemma tallySum_update:
  "tallySum w (AList.update k v tbl) + (case map_of tbl k of None \<Rightarrow> 0 | Some u \<Rightarrow> w u) =
   tallySum w tbl + w v"
  by (induction tbl) (auto simp: tallySum_def)

lemma proto_not_method: "''__proto__'' \<notin> set objectPrototypeMethods"
  by (simp add: objectPrototypeMethods_def)

lemma count_list_pos: "k \<in> set ls \<Longrightarrow> 0 < count_list ls k"
  by (induction ls) auto

lemma map_of_tallyLabel:
  "map_of tbl = expectedRow ls \<Longrightarrow> map_of (tallyLabel tbl k) = expectedRow (ls @ [k])"
  by (rule ext)
     (auto simp: tallyLabel_def expectedRow_def update_conv' count_list_0_iff
           split: option.splits tally.splits if_splits)

lemma map_of_foldl_tallyLabel: "map_of (foldl tallyLabel [] ls) = expectedRow ls"
proof (induction ls rule: rev_induct)
  case Nil
  show ?case by (rule ext) (simp add: expectedRow_def)
next
  case (snoc k ls)
  then show ?case by (simp add: map_of_tallyLabel)
qed

lemma countSum_tallyLabel:
  assumes "map_of tbl = expectedRow ls"
  shows "countSum (tallyLabel tbl k) = countSum tbl + (if k \<in> set inheritedKeys then 0 else 1)"
proof (cases "map_of tbl k")
  case None
  then show ?thesis
    using tallySum_update [of countOf k "Count 1" tbl] tallySum_update [of countOf k "Garbled 1" tbl]
    by (simp add: tallyLabel_def countSum_def inheritedKeys_def)
next
  case (Some u)
  with assms have row: "expectedRow ls k = Some u" by simp
  show ?thesis
  proof (cases u)
    case (Count n)
    with row have "k \<notin> set inheritedKeys"
      by (auto simp: expectedRow_def inheritedKeys_def split: if_splits)
    then show ?thesis
      using Some Count tallySum_update [of countOf k "Count (n + 1)" tbl]
      by (simp add: tallyLabel_def countSum_def)
  next
    case (Garbled n)
    with row have "k \<in> set inheritedKeys"
      by (auto simp: expectedRow_def inheritedKeys_def split: if_splits)
    then show ?thesis
      using Some Garbled tallySum_update [of countOf k "Garbled (n + 1)" tbl]
      by (simp add: tallyLabel_def countSum_def)
  qed
qed

lemma eventSum_tallyLabel:
  "eventSum (tallyLabel tbl k) = eventSum tbl + (if k = ''__proto__'' \<and> map_of tbl k = None then 0 else 1)"
proof (cases "map_of tbl k")
  case None
  then show ?thesis
    using tallySum_update [of eventsOf k "Count 1" tbl] tallySum_update [of eventsOf k "Garbled 1" tbl]
    by (simp add: tallyLabel_def eventSum_def)
next
  case (Some u)
  show ?thesis
  proof (cases u)
    case (Count n)
    then show ?thesis
      using Some tallySum_update [of eventsOf k "Count (n + 1)" tbl]
      by (simp add: tallyLabel_def eventSum_def)
  next
    case (Garbled n)
    then show ?thesis
      using Some tallySum_update [of eventsOf k "Garbled (n + 1)" tbl]
      by (simp add: tallyLabel_def eventSum_def)
  qed
qed

lemma countSum_foldl_tallyLabel:
  "countSum (foldl tallyLabel [] ls) = length (filter (\<lambda>k. k \<notin> set inheritedKeys) ls)"
proof (induction ls rule: rev_induct)
  case Nil
  show ?case by (simp add: countSum_def tallySum_def)
next
  case (snoc k ls)
  then show ?case
    using countSum_tallyLabel [OF map_of_foldl_tallyLabel, of ls k] by simp
qed

lemma eventSum_foldl_tallyLabel:
  "eventSum (foldl tallyLabel [] ls) = length (filter (\<lambda>k. k \<noteq> ''__proto__'') ls)"
proof (induction ls rule: rev_induct)
  case Nil
  show ?case by (simp add: eventSum_def tallySum_def)
next
  case (snoc k ls)
  have "k = ''__proto__'' \<Longrightarrow> map_of (foldl tallyLabel [] ls) k = None"
    by (simp add: map_of_foldl_tallyLabel expectedRow_def)
  with snoc show ?case
    using eventSum_tallyLabel [of "foldl tallyLabel [] ls" k] by auto
qed

lemma countSum_emotionCounts:
  "countSum (emotionCounts cal now des) =
   length (filter (\<lambda>e. cal (timestamp e) = cal now \<and> emotion e \<notin> set inheritedKeys) des)"
  by (simp add: emotionCounts_def todayEmotions_def countSum_foldl_tallyLabel
        filter_map o_def conj_commute)

lemma eventSum_emotionCounts:
  "eventSum (emotionCounts cal now des) =
   length (filter (\<lambda>e. cal (timestamp e) = cal now \<and> emotion e \<noteq> ''__proto__'') des)"
  by (simp add: emotionCounts_def todayEmotions_def eventSum_foldl_tallyLabel
        filter_map o_def conj_commute)

lemma emotionCounts_confidence:
  "emotionCounts cal now (map (\<lambda>e. e\<lparr>confidence := f e\<rparr>) des) = emotionCounts cal now des"
  by (simp add: emotionCounts_def todayEmotions_def filter_map o_def)


lemma map_of_emotionCounts:
  "map_of (emotionCounts cal now des) = expectedRow (map emotion (todayEmotions cal now des))"
  by (simp add: emotionCounts_def map_of_foldl_tallyLabel)

lemma countFor_tallyLabel:
  assumes "map_of tbl = expectedRow ls" and "k \<notin> set inheritedKeys"
  shows "countFor (tallyLabel tbl k) k = Suc (countFor tbl k)"
proof (cases "map_of tbl k")
  case None
  with assms(2) show ?thesis
    by (simp add: countFor_def tallyLabel_def inheritedKeys_def update_conv')
next
  case (Some u)
  with assms have "\<exists>n. u = Count n"
    by (auto simp: expectedRow_def inheritedKeys_def split: if_splits)
  with Some show ?thesis
    by (auto simp: countFor_def tallyLabel_def update_conv')
qed


lemma foldl_tallyLabel_replicate:
  "k \<notin> set inheritedKeys \<Longrightarrow> foldl tallyLabel [] (replicate (Suc n) k) = [(k, Count (Suc n))]"
proof (induction n)
  case 0
  then show ?case by (simp add: tallyLabel_def inheritedKeys_def)
next
  case (Suc n)
  have "replicate (Suc (Suc n)) k = replicate (Suc n) k @ [k]"
    by (simp only: replicate_append_same) simp
  then have a: "foldl tallyLabel [] (replicate (Suc (Suc n)) k) =
             tallyLabel (foldl tallyLabel [] (replicate (Suc n) k)) k"
    by (simp only: foldl_append) simp
  have b: "foldl tallyLabel [] (replicate (Suc n) k) = [(k, Count (Suc n))]"
    using Suc by blast
  have c: "tallyLabel [(k, Count (Suc n))] k = [(k, Count (Suc (Suc n)))]"
    by (simp add: tallyLabel_def)
  show ?case unfolding a b c ..
qed

lemma happy_not_inherited: "''Happy'' \<notin> set inheritedKeys"
  by (simp add: inheritedKeys_def objectPrototypeMethods_def)




lemma distinct_tallyLabel:
  "distinct (map fst tbl) \<Longrightarrow> distinct (map fst (tallyLabel tbl k))"
  by (simp add: tallyLabel_def distinct_update split: option.splits tally.splits)

lemma distinct_foldl_tallyLabel: "distinct (map fst (foldl tallyLabel [] ls))"
  by (induction ls rule: rev_induct) (simp_all add: distinct_tallyLabel)

lemma distinct_emotionCounts: "distinct (map fst (emotionCounts cal now des))"
  by (simp add: emotionCounts_def distinct_foldl_tallyLabel)


lemma percentText_half: "percentText (1/2) = ''50''"
  by (simp add: percentText_def decimal.simps)

subsection \<open>The frame loop\<close>

lemmas controller_defs =
  startCamera_def stopCamera_def startEmotionDetection_def sendFrame_def tick_def
  updateCameraUI_def showCameraError_def emit_def channelOpens_def channelCloses_def
  channelErrors_def ws_onopen_def ws_onclose_def ws_onerror_def newCameraManager_def
  setupWebSocket_def saveMoodEntry_def showNotification_def captureMood_def

lemmas example_defs = page_def streaming_def controller_defs

lemma ticks_not_sending:
  "\<not> (isStreaming s \<and> ws s = Some OPEN) \<Longrightarrow>
   effects (ticks n s) = effects s \<and> timers (ticks n s) = timers s - n \<and>
   isStreaming (ticks n s) = isStreaming s \<and> ws (ticks n s) = ws s"
proof (induction n arbitrary: s)
  case 0
  show ?case by simp
next
  case (Suc n)
  have step: "effects (tick s) = effects s \<and> timers (tick s) = timers s - 1 \<and>
              isStreaming (tick s) = isStreaming s \<and> ws (tick s) = ws s"
    using Suc.prems by (auto simp: tick_def sendFrame_def)
  then have "\<not> (isStreaming (tick s) \<and> ws (tick s) = Some OPEN)"
    using Suc.prems by simp
  from Suc.IH [OF this] step show ?case by simp
qed

lemma ticks_sending:
  "isStreaming s \<and> ws s = Some OPEN \<and> 0 < timers s \<Longrightarrow>
   effects (ticks n s) = effects s @ replicate n WsSend \<and> timers (ticks n s) = timers s \<and>
   isStreaming (ticks n s) = isStreaming s \<and> ws (ticks n s) = ws s"
proof (induction n arbitrary: s)
  case 0
  show ?case by simp
next
  case (Suc n)
  have step: "effects (tick s) = effects s @ [WsSend] \<and> timers (tick s) = timers s \<and>
              isStreaming (tick s) = isStreaming s \<and> ws (tick s) = ws s"
    using Suc.prems by (auto simp: tick_def sendFrame_def emit_def)
  then have "isStreaming (tick s) \<and> ws (tick s) = Some OPEN \<and> 0 < timers (tick s)"
    using Suc.prems by simp
  from Suc.IH [OF this] step show ?case by (simp add: replicate_app_Cons_same)
qed

lemma stopCamera_fields:
  "stream s \<noteq> None \<Longrightarrow> isStreaming (stopCamera s) = False"
  by (auto simp: stopCamera_def updateCameraUI_def emit_def Let_def)

section \<open>The claims\<close>

text \<open>
  Claim C1. Whatever events are recorded on a new manager, the history never holds more than
  100 entries and is the last 100 recorded entries in arrival order: the oldest entry goes
  first. After 105 events, numbered from 1, the history is the entries 6 to 105.
\<close>

theorem storeEmotion_keeps_last_100:
  "length (detectedEmotions (recordAll cal evs (newCameraManager b1 b2 b3 tc))) \<le> 100 \<and>
   detectedEmotions (recordAll cal evs (newCameraManager b1 b2 b3 tc)) =
     lastN 100 (map entryOf evs) \<and>
   detectedEmotions (recordAll cal (map ev [1..<106]) (newCameraManager b1 b2 b3 tc)) =
     map (\<lambda>i. entryOf (ev i)) [6..<106]"
proof -
  have all: "detectedEmotions (recordAll cal xs (newCameraManager b1 b2 b3 tc)) =
             lastN 100 (map entryOf xs)" for xs
    using detectedEmotions_recordAll [of "newCameraManager b1 b2 b3 tc" cal xs] by simp
  have "lastN 100 (map entryOf (map ev [1..<106])) = map (\<lambda>i. entryOf (ev i)) (drop 5 [1..<106])"
    by (simp add: lastN_def drop_map o_def)
  also have "drop 5 [1..<106] = [6..<(106::nat)]"
    by (simp only: drop_upt) simp
  finally show ?thesis
    using all [of evs] all [of "map ev [1..<106]"] by (simp add: lastN_length)
qed




text \<open>
  Claim C3, as the code has it. As soon as the manager is not streaming or the socket is not
  OPEN, ticks send nothing and schedule nothing: the pending timers run out and the loop is
  over, also when the manager is still streaming. While the manager is streaming with the
  socket OPEN and a timer pending, each tick sends one frame and leaves one timer pending.
  After \<open>stopCamera\<close> has released a stream, ticks send nothing.
\<close>

theorem sendFrame_loop_ends_when_not_open:
  "(\<not> (isStreaming s \<and> ws s = Some OPEN) \<longrightarrow>
      effects (ticks n s) = effects s \<and> timers (ticks n s) = timers s - n \<and>
      isStreaming (ticks n s) = isStreaming s) \<and>
   (isStreaming s \<and> ws s = Some OPEN \<and> 0 < timers s \<longrightarrow>
      effects (ticks n s) = effects s @ replicate n WsSend \<and> timers (ticks n s) = timers s) \<and>
   (stream s \<noteq> None \<longrightarrow> effects (ticks n (stopCamera s)) = effects (stopCamera s))"
  using ticks_not_sending [of s n] ticks_sending [of s n]
        ticks_not_sending [of "stopCamera s" n] stopCamera_fields [of s]
  by simp

theorem sendFrame_loop_ends_when_not_open_witness:
  "\<not> (isStreaming (channelCloses streaming) \<and> ws (channelCloses streaming) = Some OPEN) \<and>
   effects (ticks 2 (channelCloses streaming)) = effects (channelCloses streaming) \<and>
   timers (channelCloses streaming) = 1 \<and>
   timers (ticks 2 (channelCloses streaming)) = 0 \<and>
   isStreaming (ticks 2 (channelCloses streaming)) \<and>
   isStreaming streaming \<and> ws streaming = Some OPEN \<and> 0 < timers streaming \<and>
   effects (ticks 2 streaming) = effects streaming @ [WsSend, WsSend] \<and>
   timers (ticks 2 streaming) = 1 \<and>
   stream streaming \<noteq> None \<and>
   effects (ticks 2 (stopCamera streaming)) = effects (stopCamera streaming)"
proof -
  have a: "\<not> (isStreaming (channelCloses streaming) \<and> ws (channelCloses streaming) = Some OPEN)"
    by (simp add: example_defs)
  have b: "isStreaming streaming \<and> ws streaming = Some OPEN \<and> 0 < timers streaming"
    by (simp add: example_defs)
  have c: "stream streaming \<noteq> None"
    by (simp add: example_defs)
  have t: "timers (channelCloses streaming) = 1" "timers streaming = 1"
          "isStreaming (channelCloses streaming)"
    by (simp_all add: example_defs)
  have r: "replicate 2 WsSend = [WsSend, WsSend]"
    by (simp add: numeral_2_eq_2)
  from sendFrame_loop_ends_when_not_open [of "channelCloses streaming" 2]
       sendFrame_loop_ends_when_not_open [of streaming 2]
       a b c t r
  show ?thesis by simp
qed

text \<open>
  Claim C3 as stated fails: a tick that finds the socket closed leaves a streaming manager
  without a pending timer; and a manager started while its socket was still connecting has
  no timer either, so that it sends no frame once the socket is open.
\<close>

theorem loop_not_rescheduled_counterexample:
  "isStreaming (channelCloses streaming) \<and> timers (channelCloses streaming) = 1 \<and>
   isStreaming (tick (channelCloses streaming)) \<and> timers (tick (channelCloses streaming)) = 0 \<and>
   isStreaming (channelOpens (startCamera (Granted 1) page)) \<and>
   ws (channelOpens (startCamera (Granted 1) page)) = Some OPEN \<and>
   timers (channelOpens (startCamera (Granted 1) page)) = 0 \<and>
   tick (channelOpens (startCamera (Granted 1) page)) = channelOpens (startCamera (Granted 1) page) \<and>
   WsSend \<notin> set (effects (channelOpens (startCamera (Granted 1) page)))"
  by (simp add: example_defs)

text \<open>
  Claim C4, as the code has it. The handlers of the socket's close and error events only
  write to the console: the stream stays held, \<open>isStreaming\<close> and the pending timers are
  unchanged, and no track is stopped. A later \<open>startCamera\<close> that is granted a stream takes
  it and sets \<open>isStreaming\<close>, but the socket stays closed and no frame is sent.
\<close>

theorem channel_failure_only_logged:
  "stream (channelCloses s) = stream s \<and> isStreaming (channelCloses s) = isStreaming s \<and>
   timers (channelCloses s) = timers s \<and>
   effects (channelCloses s) = effects s @ [ConsoleLog ''WebSocket disconnected''] \<and>
   channelErrors s = s\<lparr>effects := effects s @ [ConsoleError ''WebSocket error:'']\<rparr> \<and>
   stream (startCamera (Granted h) (channelCloses s)) = Some h \<and>
   isStreaming (startCamera (Granted h) (channelCloses s)) = True \<and>
   ws (startCamera (Granted h) (channelCloses s)) = Some CLOSED \<and>
   timers (startCamera (Granted h) (channelCloses s)) = timers s \<and>
   effects (startCamera (Granted h) (channelCloses s)) =
     effects s @ [ConsoleLog ''WebSocket disconnected'', GetUserMedia]"
  by (simp add: controller_defs)

text \<open>
  Claim C4 as stated fails: after the socket of a streaming manager closes or errors, the
  manager is still streaming and still holds stream 1, whose tracks were never stopped.
\<close>

theorem device_held_after_close_counterexample:
  "isStreaming streaming \<and> stream streaming = Some 1 \<and>
   isStreaming (channelCloses streaming) \<and> stream (channelCloses streaming) = Some 1 \<and>
   effects (channelCloses streaming) =
     [NewWebSocket, ConsoleLog ''WebSocket connected for emotion streaming'', GetUserMedia, WsSend,
      ConsoleLog ''WebSocket disconnected''] \<and>
   stream (channelErrors streaming) = Some 1 \<and>
   TrackStop 1 \<notin> set (effects (channelErrors streaming))"
  by (simp add: example_defs)

text \<open>
  Claim C5, as the code has it. \<open>startCamera\<close> never reads \<open>stream\<close> or \<open>isStreaming\<close>:
  whatever they are, a granted start asks for the device, takes the new stream, sends a
  frame and schedules a timer when the socket is OPEN, and disables the start button.
\<close>

theorem startCamera_ignores_state:
  "startCamera outcome (s\<lparr>stream := x, isStreaming := b\<rparr>) =
     (case outcome of Granted h \<Rightarrow> startCamera outcome s
      | Denied \<Rightarrow> (startCamera outcome s)\<lparr>stream := x, isStreaming := b\<rparr>) \<and>
   effects (startCamera (Granted h) s) =
     effects s @ GetUserMedia # (if ws s = Some OPEN then [WsSend] else []) \<and>
   timers (startCamera (Granted h) s) = timers s + (if ws s = Some OPEN then 1 else 0) \<and>
   stream (startCamera (Granted h) s) = Some h \<and>
   isStreaming (startCamera (Granted h) s) = True \<and>
   startBtn (startCamera (Granted h) s) = map_option (\<lambda>d. True) (startBtn s)"
  by (cases outcome) (simp_all add: controller_defs)

text \<open>
  Claim C5 as stated fails: a second granted start on a streaming manager asks for the device
  again, replaces stream 1 by stream 2 and leaves two timers pending.
\<close>

theorem second_start_counterexample:
  "isStreaming streaming \<and> stream streaming = Some 1 \<and> timers streaming = 1 \<and>
   stream (startCamera (Granted 2) streaming) = Some 2 \<and>
   timers (startCamera (Granted 2) streaming) = 2 \<and>
   effects (startCamera (Granted 2) streaming) =
     [NewWebSocket, ConsoleLog ''WebSocket connected for emotion streaming'',
      GetUserMedia, WsSend, GetUserMedia, WsSend]"
  by (simp add: example_defs)

text \<open>
  Claim C6, as the code has it. \<open>stopCamera\<close> is idempotent: a second call changes nothing.
  A single call stops the tracks of a held stream and closes the socket when it is OPEN,
  also on a manager that holds no stream, and sets the buttons of the page to their stopped
  state: start enabled, stop and capture disabled. The timers and the history stay.
\<close>

theorem stopCamera_idempotent_closes_open_socket:
  "stopCamera (stopCamera s) = stopCamera s \<and>
   effects (stopCamera s) =
     effects s @ (case stream s of None \<Rightarrow> [] | Some h \<Rightarrow> [TrackStop h]) @
       (if ws s = Some OPEN then [WsClose] else []) \<and>
   ws (stopCamera s) = (if ws s = Some OPEN then Some CLOSING else ws s) \<and>
   stream (stopCamera s) = None \<and>
   isStreaming (stopCamera s) = (isStreaming s \<and> stream s = None) \<and>
   timers (stopCamera s) = timers s \<and>
   startBtn (stopCamera s) = map_option (\<lambda>d. False) (startBtn s) \<and>
   stopBtn (stopCamera s) = map_option (\<lambda>d. True) (stopBtn s) \<and>
   captureBtn (stopCamera s) = map_option (\<lambda>d. True) (captureBtn s) \<and>
   detectedEmotions (stopCamera s) = detectedEmotions s \<and>
   todayContainer (stopCamera s) = todayContainer s"
  by (cases "stream s") (simp_all add: controller_defs Let_def option.map_comp o_def)

text \<open>
  Claim C6 as stated fails: on a manager that never streamed and whose socket is OPEN,
  \<open>stopCamera\<close> closes the socket and disables the stop button.
\<close>

theorem stop_when_idle_closes_socket_counterexample:
  "stream (channelOpens page) = None \<and> \<not> isStreaming (channelOpens page) \<and>
   ws (channelOpens page) = Some OPEN \<and>
   ws (stopCamera (channelOpens page)) = Some CLOSING \<and>
   effects (stopCamera (channelOpens page)) =
     [NewWebSocket, ConsoleLog ''WebSocket connected for emotion streaming'', WsClose] \<and>
   stopBtn (channelOpens page) = Some False \<and>
   stopBtn (stopCamera (channelOpens page)) = Some True"
  by (simp add: example_defs Let_def)

text \<open>
  Claim C7, as the code has it. \<open>storeEmotion\<close> stores the confidence it is given,
  whatever its value. The table of counts does not depend on the confidences, and the sum of
  its numbers is the number of entries of the buffer that are stamped on the current day and
  whose label names no property inherited from \<open>Object.prototype\<close>.
\<close>

theorem confidence_stored_as_received:
  "confidence (last (detectedEmotions (storeEmotion cal em conf t1 t2 s))) = conf \<and>
   emotionCounts cal now (map (\<lambda>e. e\<lparr>confidence := f e\<rparr>) des) = emotionCounts cal now des \<and>
   countSum (emotionCounts cal now des) =
     length (filter (\<lambda>e. cal (timestamp e) = cal now \<and> emotion e \<notin> set inheritedKeys) des)"
proof -
  have "last (detectedEmotions (storeEmotion cal em conf t1 t2 s)) =
        \<lparr>emotion = em, confidence = conf, timestamp = t1\<rparr>"
    unfolding storeEmotion_def Let_def detectedEmotions_updateTodayEmotions
    using last_stored [of "detectedEmotions s"] by simp
  then show ?thesis
    by (simp add: emotionCounts_confidence countSum_emotionCounts)
qed

text \<open>
  Claim C7 as stated fails: the confidence 3/2 is stored as it is, and after 101 events of
  one day the numbers of that day add up to 100.
\<close>

theorem unclamped_confidence_counterexample:
  "detectedEmotions (storeEmotion utcDay ''Happy'' (3/2) 1000 2000 (newCameraManager None None None (Some [])))
     = [\<lparr>emotion = ''Happy'', confidence = 3/2, timestamp = 1000\<rparr>] \<and>
   \<not> ((3/2::real) \<le> 1) \<and>
   length (replicate 101 (''Happy'', 1/2::real, 1000::int, 2000::int)) = 101 \<and>
   countSum (emotionCounts utcDay 2000 (detectedEmotions
      (recordAll utcDay (replicate 101 (''Happy'', 1/2, 1000, 2000)) (newCameraManager None None None (Some [])))))
     = 100"
proof -
  have all: "detectedEmotions (recordAll utcDay xs (newCameraManager None None None (Some []))) =
             lastN 100 (map entryOf xs)" for xs
    using detectedEmotions_recordAll [of "newCameraManager None None None (Some [])" utcDay xs] by simp
  have "lastN 100 (map entryOf (replicate 101 (''Happy'', 1/2::real, 1000::int, 2000::int))) =
        replicate 100 (entryOf (''Happy'', 1/2, 1000, 2000))"
    by (simp add: lastN_def)
  then have "countSum (emotionCounts utcDay 2000 (detectedEmotions
      (recordAll utcDay (replicate 101 (''Happy'', 1/2, 1000, 2000)) (newCameraManager None None None (Some [])))))
     = 100"
    using happy_not_inherited
    by (simp add: all countSum_emotionCounts entryOf_def utcDay_def)
  then show ?thesis
    by (simp add: storeEmotion_def Let_def detectedEmotions_updateTodayEmotions)
qed

text \<open>
  Claim C8, as the code has it. When \<open>getUserMedia\<close> rejects, \<open>startCamera\<close> writes to the
  console and shows the error message; no field of the manager changes. The socket is the one
  the constructor created, and no tick sends a frame.
\<close>

theorem startCamera_denied_only_reports:
  "startCamera Denied s =
     s\<lparr>effects := effects s @
        [GetUserMedia, ConsoleError ''Error accessing camera:'',
         ShowCameraError ''Unable to access camera. Please check permissions.'']\<rparr> \<and>
   ws (startCamera Denied (newCameraManager b1 b2 b3 tc)) = Some CONNECTING \<and>
   effects (ticks n (startCamera Denied (newCameraManager b1 b2 b3 tc))) =
     [NewWebSocket, GetUserMedia, ConsoleError ''Error accessing camera:'',
      ShowCameraError ''Unable to access camera. Please check permissions.'']"
proof -
  have "\<not> (isStreaming (startCamera Denied (newCameraManager b1 b2 b3 tc)) \<and>
            ws (startCamera Denied (newCameraManager b1 b2 b3 tc)) = Some OPEN)"
    by (simp add: controller_defs)
  from ticks_not_sending [OF this, of n] show ?thesis
    by (simp add: controller_defs)
qed

text \<open>
  Claim C8 as stated fails: after the rejection the manager is the one it was, apart from the
  trace: it records no error, the start button stays enabled, and the socket, created by the
  constructor, is open.
\<close>

theorem denied_start_no_error_state_counterexample:
  "startCamera Denied (channelOpens page) =
     (channelOpens page)\<lparr>effects :=
        [NewWebSocket, ConsoleLog ''WebSocket connected for emotion streaming'', GetUserMedia,
         ConsoleError ''Error accessing camera:'',
         ShowCameraError ''Unable to access camera. Please check permissions.'']\<rparr> \<and>
   isStreaming (startCamera Denied (channelOpens page)) = isStreaming (channelOpens page) \<and>
   stream (startCamera Denied (channelOpens page)) = None \<and>
   startBtn (startCamera Denied (channelOpens page)) = Some False \<and>
   ws (startCamera Denied (channelOpens page)) = Some OPEN"
  by (simp add: example_defs)

text \<open>
  Claim C9, as the code has it. When the request of \<open>saveMoodEntry\<close> rejects, or is
  answered with a status that is not OK, one request has been made and nothing else changes:
  the rejection is written to the console and the bad status is ignored. In both cases
  \<open>captureMood\<close> goes on to show its message of success, when the application object
  exists, and shows no message of failure.
\<close>

theorem saveMoodEntry_failure_silent:
  "saveMoodEntry Rejected app em s =
     s\<lparr>effects := effects s @ [PostMoodEntry em, ConsoleError ''Error saving mood entry:'']\<rparr> \<and>
   saveMoodEntry (Response False) app em s = s\<lparr>effects := effects s @ [PostMoodEntry em]\<rparr> \<and>
   captureMood percent (Some (em, conf)) Rejected app (s\<lparr>isStreaming := True\<rparr>) =
     s\<lparr>isStreaming := True,
       effects := effects s @
         [PostAnalyzeEmotion, PostMoodEntry em, ConsoleError ''Error saving mood entry:''] @
         (if app = None then []
          else [ShowNotification (''Mood captured: '' @ em @ '' ('' @ percent conf @ ''% confidence)'')])\<rparr> \<and>
   captureMood percent (Some (em, conf)) (Response False) app (s\<lparr>isStreaming := True\<rparr>) =
     s\<lparr>isStreaming := True,
       effects := effects s @ [PostAnalyzeEmotion, PostMoodEntry em] @
         (if app = None then []
          else [ShowNotification (''Mood captured: '' @ em @ '' ('' @ percent conf @ ''% confidence)'')])\<rparr>"
  by (simp add: controller_defs)

text \<open>
  Claim C9 as stated fails: no failure is shown to the user, neither for a rejected request
  nor for a bad status; the message shown is the one of success.
\<close>

theorem save_failure_no_notification_counterexample:
  "effects (saveMoodEntry Rejected (Some ''dashboard'') ''Happy'' streaming) =
     [NewWebSocket, ConsoleLog ''WebSocket connected for emotion streaming'', GetUserMedia, WsSend,
      PostMoodEntry ''Happy'', ConsoleError ''Error saving mood entry:''] \<and>
   effects (saveMoodEntry (Response False) (Some ''dashboard'') ''Happy'' streaming) =
     [NewWebSocket, ConsoleLog ''WebSocket connected for emotion streaming'', GetUserMedia, WsSend,
      PostMoodEntry ''Happy''] \<and>
   effects (captureMood percentText (Some (''Happy'', 1/2)) Rejected (Some ''dashboard'') streaming) =
     [NewWebSocket, ConsoleLog ''WebSocket connected for emotion streaming'', GetUserMedia, WsSend,
      PostAnalyzeEmotion, PostMoodEntry ''Happy'', ConsoleError ''Error saving mood entry:'',
      ShowNotification ''Mood captured: Happy (50% confidence)''] \<and>
   effects (captureMood percentText (Some (''Happy'', 1/2)) (Response False) (Some ''dashboard'') streaming) =
     [NewWebSocket, ConsoleLog ''WebSocket connected for emotion streaming'', GetUserMedia, WsSend,
      PostAnalyzeEmotion, PostMoodEntry ''Happy'',
      ShowNotification ''Mood captured: Happy (50% confidence)'']"
  by (simp add: example_defs percentText_half)

text \<open>
  Claim C10. After every \<open>storeEmotion\<close> the rows of the element are computed from the
  last 100 entries only: one row for each label among their entries of the current day, as
  \<open>expectedRow\<close> gives it, which for a label that names no inherited property is the
  number of those entries. The same holds of the table of any day. The numbers of the table
  are as many as the entries of the day among the last 100 whose label names no inherited
  property, the events behind all rows as many as those whose label is not \<open>__proto__\<close>;
  both are at most 100, and of 101 events of one day only 100 are counted.
\<close>

theorem today_counts_from_buffer_only:
  "map_option (\<lambda>rows. distinct (map fst rows))
       (todayContainer (recordAll cal (evs @ [(em, conf, t1, t2)]) (newCameraManager b1 b2 b3 tc))) =
     map_option (\<lambda>rows. True) tc \<and>
   map_option map_of
       (todayContainer (recordAll cal (evs @ [(em, conf, t1, t2)]) (newCameraManager b1 b2 b3 tc))) =
     map_option (\<lambda>rows. expectedRow (map emotion (filter (\<lambda>e. cal (timestamp e) = cal t2)
                   (lastN 100 (map entryOf (evs @ [(em, conf, t1, t2)])))))) tc \<and>
   map_option countSum
       (todayContainer (recordAll cal (evs @ [(em, conf, t1, t2)]) (newCameraManager b1 b2 b3 tc))) =
     map_option (\<lambda>rows. length (filter (\<lambda>e. cal (timestamp e) = cal t2 \<and> emotion e \<notin> set inheritedKeys)
                   (lastN 100 (map entryOf (evs @ [(em, conf, t1, t2)]))))) tc \<and>
   map_of (emotionCounts cal now (detectedEmotions (recordAll cal evs (newCameraManager b1 b2 b3 tc)))) =
     expectedRow (map emotion (filter (\<lambda>e. cal (timestamp e) = cal now) (lastN 100 (map entryOf evs)))) \<and>
   distinct (map fst
     (emotionCounts cal now (detectedEmotions (recordAll cal evs (newCameraManager b1 b2 b3 tc))))) \<and>
   countSum (emotionCounts cal now (detectedEmotions (recordAll cal evs (newCameraManager b1 b2 b3 tc)))) =
     length (filter (\<lambda>e. cal (timestamp e) = cal now \<and> emotion e \<notin> set inheritedKeys)
               (lastN 100 (map entryOf evs))) \<and>
   eventSum (emotionCounts cal now (detectedEmotions (recordAll cal evs (newCameraManager b1 b2 b3 tc)))) =
     length (filter (\<lambda>e. cal (timestamp e) = cal now \<and> emotion e \<noteq> ''__proto__'')
               (lastN 100 (map entryOf evs))) \<and>
   countSum (emotionCounts cal now (detectedEmotions (recordAll cal evs (newCameraManager b1 b2 b3 tc))))
     \<le> 100 \<and>
   eventSum (emotionCounts cal now (detectedEmotions (recordAll cal evs (newCameraManager b1 b2 b3 tc))))
     \<le> 100 \<and>
   emotionCounts cal t
     (detectedEmotions (recordAll cal (replicate 101 (''Happy'', conf, t, t)) (newCameraManager b1 b2 b3 tc))) =
     [(''Happy'', Count 100)]"
proof -
  let ?new = "newCameraManager b1 b2 b3 tc"
  let ?all = "evs @ [(em, conf, t1, t2)]"
  have all: "detectedEmotions (recordAll cal xs ?new) = lastN 100 (map entryOf xs)" for xs
    using detectedEmotions_recordAll [of ?new cal xs] by simp
  have step: "recordAll cal ?all ?new = storeEmotion cal em conf t1 t2 (recordAll cal evs ?new)"
    by (simp add: recordAll_def record1_def)
  have shown: "todayContainer (recordAll cal ?all ?new) =
     map_option (\<lambda>rows. emotionCounts cal t2 (lastN 100 (map entryOf ?all))) tc"
    using todayContainer_recordAll [of _ cal evs ?new] all [of ?all]
    unfolding step todayContainer_storeEmotion by simp
  have shown_distinct: "map_option (\<lambda>rows. distinct (map fst rows))
       (todayContainer (recordAll cal ?all ?new)) = map_option (\<lambda>rows. True) tc"
    unfolding shown
    by (simp only: option.map_comp o_def distinct_emotionCounts)
  have shown_rows: "map_option map_of (todayContainer (recordAll cal ?all ?new)) =
     map_option (\<lambda>rows. expectedRow (map emotion (filter (\<lambda>e. cal (timestamp e) = cal t2)
                   (lastN 100 (map entryOf ?all))))) tc"
    unfolding shown
    by (simp only: option.map_comp o_def map_of_emotionCounts todayEmotions_def)
  have shown_sum: "map_option countSum (todayContainer (recordAll cal ?all ?new)) =
     map_option (\<lambda>rows. length (filter (\<lambda>e. cal (timestamp e) = cal t2 \<and> emotion e \<notin> set inheritedKeys)
                   (lastN 100 (map entryOf ?all)))) tc"
    unfolding shown
    by (simp only: option.map_comp o_def countSum_emotionCounts)
  have rows: "map_of (emotionCounts cal now (detectedEmotions (recordAll cal evs ?new))) =
     expectedRow (map emotion (filter (\<lambda>e. cal (timestamp e) = cal now) (lastN 100 (map entryOf evs))))"
    by (simp add: all map_of_emotionCounts todayEmotions_def)
  have csum_eq: "countSum (emotionCounts cal now (detectedEmotions (recordAll cal evs ?new))) =
     length (filter (\<lambda>e. cal (timestamp e) = cal now \<and> emotion e \<notin> set inheritedKeys)
               (lastN 100 (map entryOf evs)))"
    by (simp add: all countSum_emotionCounts)
  have esum_eq: "eventSum (emotionCounts cal now (detectedEmotions (recordAll cal evs ?new))) =
     length (filter (\<lambda>e. cal (timestamp e) = cal now \<and> emotion e \<noteq> ''__proto__'')
               (lastN 100 (map entryOf evs)))"
    by (simp add: all eventSum_emotionCounts)
  have len: "length (lastN 100 (map entryOf evs)) \<le> 100"
    by (rule lastN_length)
  have csum: "countSum (emotionCounts cal now (detectedEmotions (recordAll cal evs ?new))) \<le> 100"
    unfolding csum_eq by (rule order_trans [OF length_filter_le len])
  have esum: "eventSum (emotionCounts cal now (detectedEmotions (recordAll cal evs ?new))) \<le> 100"
    unfolding esum_eq by (rule order_trans [OF length_filter_le len])
  have "lastN 100 (map entryOf (replicate 101 (''Happy'', conf, t, t))) =
        replicate 100 (entryOf (''Happy'', conf, t, t))"
    by (simp add: lastN_def)
  then have "emotionCounts cal t (detectedEmotions (recordAll cal (replicate 101 (''Happy'', conf, t, t)) ?new)) =
        foldl tallyLabel [] (replicate (Suc 99) ''Happy'')"
    by (simp add: all emotionCounts_def todayEmotions_def entryOf_def)
  then have evict: "emotionCounts cal t (detectedEmotions (recordAll cal (replicate 101 (''Happy'', conf, t, t)) ?new)) =
        [(''Happy'', Count 100)]"
    by (simp only: foldl_tallyLabel_replicate [OF happy_not_inherited]) simp
  from shown_distinct shown_rows shown_sum rows csum_eq esum_eq csum esum evict
       distinct_emotionCounts
  show ?thesis by blast
qed

end
